theory Spec2Isabelle
  imports Complex_Main
begin

section \<open>Data model\<close>

text \<open>
  An issue as the client receives it from \<^verbatim>\<open>GET /api/issues\<close> or from a
  \<^verbatim>\<open>new_issue\<close> push event. Only the fields the modelled functions read are kept.
  \<open>ident\<close> is \<^verbatim>\<open>issue.id\<close> and \<open>issue_type\<close> is \<^verbatim>\<open>issue.type\<close>. A coordinate
  is \<open>None\<close> when the field is absent or null, and \<open>Some x\<close> when it holds the number \<open>x\<close>.
\<close>

record issue =
  ident :: string
  issue_type :: string
  location :: string
  lat :: "real option"
  lng :: "real option"
  status :: string

text \<open>A user as stored in \<^verbatim>\<open>STATE.currentUser\<close>, \<^verbatim>\<open>STATE.users\<close> and local storage.\<close>

record user =
  uid :: string
  username :: string
  points :: int

text \<open>
  What \<^verbatim>\<open>await res.json()\<close> yields and what is then stored in \<^verbatim>\<open>STATE.issues\<close> or
  \<^verbatim>\<open>STATE.users\<close>: an array of records, or any other JSON value, kept as its text
  (so \<open>NonArr ''null''\<close> is the value \<^verbatim>\<open>null\<close>).
\<close>

datatype 'a parsed = Arr "'a list" | NonArr string

text \<open>
  The result of \<^verbatim>\<open>await fetch(...)\<close> followed by \<^verbatim>\<open>await res.json()\<close>: the request
  never completed, or a response arrived with its \<^verbatim>\<open>res.ok\<close> flag and a body that is
  JSON (\<open>Some\<close>) or not (\<open>None\<close>, where \<^verbatim>\<open>res.json()\<close> rejects).
\<close>

datatype 'a fetched = Network_failure | Response bool "'a parsed option"

text \<open>A Leaflet marker; \<open>marker_id\<close> stands for the identity of the layer object.\<close>

record marker =
  marker_id :: nat
  marker_lat :: real
  marker_lng :: real
  color :: string
  popup :: "string \<times> string \<times> string"

text \<open>
  Effects that leave the page state: toasts, HTTP requests, console output.
  \<open>Toast message type\<close> is \<^verbatim>\<open>showToast(message, type)\<close>. \<open>Toast_number n rest type\<close> is
  \<^verbatim>\<open>showToast(`${n}` + rest, type)\<close> for a number \<open>n\<close>: the text JavaScript prints for the
  number is left to the language and is not computed here.
\<close>

datatype effect =
    Toast string string
  | Toast_number int string string
  | Request string string
  | Console_error string
  | Uncaught string
  | Points_animation int
  | Fit_bounds "nat list"
  | Hash_later string nat

text \<open>
  The feed region written by \<^verbatim>\<open>renderHome\<close>: the three counters and the card grid.
  A card is the issue it shows together with the flag of the \<^verbatim>\<open>issue.lat ? ... : ''\<close>
  map link.
\<close>

datatype card = Card issue bool

text \<open>
  What the total counter holds: \<open>Count n\<close> after a number was assigned to its
  \<^verbatim>\<open>textContent\<close>, and \<open>Length_of v\<close> after \<^verbatim>\<open>STATE.issues.length\<close> was assigned while
  \<^verbatim>\<open>STATE.issues\<close> held the value \<open>v\<close> that is no array. The other two counters are
  only ever assigned the length of an array.
\<close>

datatype counter = Count nat | Length_of string

datatype feed = Cards "card list" | Empty_message

record home_view =
  total_issues :: counter
  progress_issues :: nat
  solved_issues :: nat
  issue_feed :: feed

datatype medal = Gold | Silver | Bronze | No_medal

record leaderboard_row =
  rank :: nat
  row_medal :: medal
  is_me :: bool
  row_user :: user

text \<open>The fields of the report form (\<^verbatim>\<open>.value\<close> of each input, always a string).\<close>

record report_form =
  form_type :: string
  form_location :: string
  form_lat :: string
  form_lng :: string
  form_desc :: string

text \<open>
  The page state: the \<^verbatim>\<open>STATE\<close> object, the map variables, local storage, the form,
  and the regions of the document the renderers write (\<open>home\<close>, \<open>admin_table\<close>,
  \<open>leaderboard\<close> and \<open>user_ui\<close>). \<open>mainMap\<close> is \<open>None\<close> while the variable is null, otherwise the markers that are
  layers of the map. \<open>effects\<close> is the trace of effects in the order they happened.
\<close>

record state =
  issues :: "issue parsed"
  users :: "user parsed"
  currentUser :: "user option"
  isAdmin :: bool
  active_filter :: string
  mainMap :: "marker list option"
  issueMarkers :: "marker list"
  next_marker :: nat
  pickerMarker :: "(real \<times> real) option"
  storage :: "user option"
  form :: report_form
  currentImageBase64 :: "string option"
  home :: home_view
  admin_table :: "issue list"
  leaderboard :: "leaderboard_row list"
  user_ui :: "user option"
  effects :: "effect list"

text \<open>A function body either runs to its end or throws; both leave a state behind.\<close>

datatype completion = Returns state | Throws state

fun and_then :: "completion \<Rightarrow> (state \<Rightarrow> completion) \<Rightarrow> completion" where
  "and_then (Returns s) f = f s"
| "and_then (Throws s) f = Throws s"

fun state_of :: "completion \<Rightarrow> state" where
  "state_of (Returns s) = s"
| "state_of (Throws s) = s"

text \<open>An exception that reaches the top of an event handler is reported and dropped.\<close>

fun handler_end :: "completion \<Rightarrow> state" where
  "handler_end (Returns s) = s"
| "handler_end (Throws s) = s\<lparr>effects := effects s @ [Uncaught ''TypeError'']\<rparr>"

section \<open>Utilities\<close>

definition showToast :: "string \<Rightarrow> string \<Rightarrow> state \<Rightarrow> state" where
  "showToast message type st = st\<lparr>effects := effects st @ [Toast message type]\<rparr>"

definition showToast_number :: "int \<Rightarrow> string \<Rightarrow> string \<Rightarrow> state \<Rightarrow> state" where
  "showToast_number n rest type st = st\<lparr>effects := effects st @ [Toast_number n rest type]\<rparr>"

definition console_error :: "string \<Rightarrow> state \<Rightarrow> state" where
  "console_error message st = st\<lparr>effects := effects st @ [Console_error message]\<rparr>"

definition request :: "string \<Rightarrow> string \<Rightarrow> state \<Rightarrow> state" where
  "request method url st = st\<lparr>effects := effects st @ [Request method url]\<rparr>"

text \<open>JavaScript truthiness of a coordinate: absent, null and \<open>0\<close> are falsy.\<close>

definition truthy :: "real option \<Rightarrow> bool" where
  "truthy v = (case v of None \<Rightarrow> False | Some x \<Rightarrow> x \<noteq> 0)"

section \<open>View renderers\<close>

text \<open>
  \<^verbatim>\<open>renderHome\<close>: the counters are computed from \<^verbatim>\<open>STATE.issues\<close>, the cards from
  the issues the active filter selects. On a value that is no array the first
  statement still assigns \<^verbatim>\<open>STATE.issues.length\<close> to the total counter (unless the value
  is \<^verbatim>\<open>null\<close>, where reading \<^verbatim>\<open>length\<close> throws), and the call of
  \<^verbatim>\<open>STATE.issues.filter\<close> in the second statement throws a TypeError; nothing else is
  written.
\<close>

definition card_of :: "issue \<Rightarrow> card" where
  "card_of i = Card i (truthy (lat i))"

definition renderHome :: "state \<Rightarrow> completion" where
  "renderHome st =
     (case issues st of
        NonArr v \<Rightarrow>
          (if v = ''null'' then Throws st
           else Throws (st\<lparr>home := (home st)\<lparr>total_issues := Length_of v\<rparr>\<rparr>))
      | Arr xs \<Rightarrow>
          (let filteredIssues =
                 (if active_filter st = ''all'' then xs
                  else filter (\<lambda>i. status i = active_filter st) xs)
           in Returns (st\<lparr>home :=
                \<lparr>total_issues = Count (length xs),
                 progress_issues = length (filter (\<lambda>i. status i = ''in-progress'') xs),
                 solved_issues = length (filter (\<lambda>i. status i = ''solved'') xs),
                 issue_feed =
                   (if filteredIssues \<noteq> [] then Cards (map card_of filteredIssues)
                    else Empty_message)\<rparr>\<rparr>)))"

text \<open>
  \<^verbatim>\<open>renderHome\<close> of \<^verbatim>\<open>app.js\<close>: that page has no in-progress counter, so the field
  \<open>progress_issues\<close> is left as it is. On a value that is no array it behaves as the
  other one does: the total counter is assigned, then \<^verbatim>\<open>filter\<close> throws.
\<close>

definition app_renderHome :: "state \<Rightarrow> completion" where
  "app_renderHome st =
     (case issues st of
        NonArr v \<Rightarrow>
          (if v = ''null'' then Throws st
           else Throws (st\<lparr>home := (home st)\<lparr>total_issues := Length_of v\<rparr>\<rparr>))
      | Arr xs \<Rightarrow>
          (let filteredIssues =
                 (if active_filter st = ''all'' then xs
                  else filter (\<lambda>i. status i = active_filter st) xs)
           in Returns (st\<lparr>home := (home st)
                \<lparr>total_issues := Count (length xs),
                 solved_issues := length (filter (\<lambda>i. status i = ''solved'') xs),
                 issue_feed :=
                   (if map card_of filteredIssues \<noteq> [] then Cards (map card_of filteredIssues)
                    else Empty_message)\<rparr>\<rparr>)))"

text \<open>The filter buttons: \<^verbatim>\<open>STATE.filter = btn.dataset.filter; renderHome()\<close>.\<close>

definition on_filter_click :: "string \<Rightarrow> state \<Rightarrow> state" where
  "on_filter_click f st = handler_end (renderHome (st\<lparr>active_filter := f\<rparr>))"

definition app_on_filter_click :: "string \<Rightarrow> state \<Rightarrow> state" where
  "app_on_filter_click f st = handler_end (app_renderHome (st\<lparr>active_filter := f\<rparr>))"

definition renderAdminTable :: "state \<Rightarrow> completion" where
  "renderAdminTable st =
     (case issues st of
        NonArr v \<Rightarrow> Throws st
      | Arr xs \<Rightarrow> Returns (st\<lparr>admin_table := xs\<rparr>))"

definition medal_of :: "nat \<Rightarrow> medal" where
  "medal_of r = (if r = 1 then Gold else if r = 2 then Silver else if r = 3 then Bronze else No_medal)"

definition renderLeaderboard :: "state \<Rightarrow> completion" where
  "renderLeaderboard st =
     (case users st of
        NonArr v \<Rightarrow> Throws st
      | Arr us \<Rightarrow>
          Returns (st\<lparr>leaderboard :=
            map (\<lambda>(index, u).
                  \<lparr>rank = index + 1,
                   row_medal = medal_of (index + 1),
                   is_me = (case currentUser st of None \<Rightarrow> False | Some c \<Rightarrow> uid c = uid u),
                   row_user = u\<rparr>)
                (enumerate 0 us)\<rparr>))"

definition updateUserUI :: "state \<Rightarrow> state" where
  "updateUserUI st = st\<lparr>user_ui := currentUser st\<rparr>"

subsection \<open>The main map\<close>

text \<open>\<^verbatim>\<open>mainMap.removeLayer(m)\<close> takes the layer object \<open>m\<close> off the map.\<close>

definition removeLayer :: "marker \<Rightarrow> marker list \<Rightarrow> marker list" where
  "removeLayer m ls = filter (\<lambda>l. marker_id l \<noteq> marker_id m) ls"

definition marker_color :: "string \<Rightarrow> string" where
  "marker_color s = (if s = ''solved'' then ''green'' else if s = ''in-progress'' then ''blue'' else ''red'')"

text \<open>
  The body of \<^verbatim>\<open>STATE.issues.forEach\<close> in \<^verbatim>\<open>renderMainMap\<close>: under
  \<^verbatim>\<open>if (issue.lat && issue.lng)\<close> a new marker is added to the map and pushed onto
  \<^verbatim>\<open>issueMarkers\<close>.
\<close>

definition place_marker :: "issue \<Rightarrow> state \<Rightarrow> state" where
  "place_marker i st =
     (case (lat i, lng i) of
        (Some a, Some b) \<Rightarrow>
          (if a \<noteq> 0 \<and> b \<noteq> 0 then
             (let m = \<lparr>marker_id = next_marker st, marker_lat = a, marker_lng = b,
                       color = marker_color (status i),
                       popup = (issue_type i, location i, status i)\<rparr>
              in st\<lparr>mainMap := map_option (\<lambda>ls. ls @ [m]) (mainMap st),
                    issueMarkers := issueMarkers st @ [m],
                    next_marker := Suc (next_marker st)\<rparr>)
           else st)
      | _ \<Rightarrow> st)"

fun place_markers :: "issue list \<Rightarrow> state \<Rightarrow> state" where
  "place_markers [] st = st"
| "place_markers (i # rest) st = place_markers rest (place_marker i st)"

definition renderMainMap :: "state \<Rightarrow> completion" where
  "renderMainMap st =
     (case mainMap st of
        None \<Rightarrow> Returns st
      | Some ls \<Rightarrow>
          (let st1 = st\<lparr>mainMap := Some (foldl (\<lambda>l m. removeLayer m l) ls (issueMarkers st)),
                        issueMarkers := []\<rparr>
           in case issues st1 of
                NonArr v \<Rightarrow> Throws st1
              | Arr xs \<Rightarrow>
                  (let st2 = place_markers xs st1
                   in Returns
                        (if length (issueMarkers st2) > 0
                         then st2\<lparr>effects := effects st2 @ [Fit_bounds (map marker_id (issueMarkers st2))]\<rparr>
                         else st2))))"

section \<open>Data fetching\<close>

text \<open>
  \<^verbatim>\<open>fetchIssues\<close>, run from the request to the end of its \<^verbatim>\<open>try\<close>/\<^verbatim>\<open>catch\<close>.
  \<^verbatim>\<open>fetch\<close> rejects only when the request does not complete; a response with any
  status resolves, and its parsed body is assigned to \<^verbatim>\<open>STATE.issues\<close> before
  \<^verbatim>\<open>renderHome\<close> runs. Whatever is thrown inside the \<^verbatim>\<open>try\<close> is logged.
\<close>

definition fetchIssues :: "issue fetched \<Rightarrow> state \<Rightarrow> state" where
  "fetchIssues r st =
     (let st0 = request ''GET'' ''/api/issues'' st
      in case r of
           Network_failure \<Rightarrow> console_error ''Error fetching issues:'' st0
         | Response ok None \<Rightarrow> console_error ''Error fetching issues:'' st0
         | Response ok (Some v) \<Rightarrow>
             (case renderHome (st0\<lparr>issues := v\<rparr>) of
                Returns s \<Rightarrow> s
              | Throws s \<Rightarrow> console_error ''Error fetching issues:'' s))"

text \<open>\<^verbatim>\<open>fetchIssues\<close> of \<^verbatim>\<open>app.js\<close>: its \<^verbatim>\<open>catch\<close> also shows a toast.\<close>

definition app_fetchIssues :: "issue fetched \<Rightarrow> state \<Rightarrow> state" where
  "app_fetchIssues r st =
     (let st0 = request ''GET'' ''/api/issues'' st;
          failed = (\<lambda>s. console_error ''error'' (showToast ''Error connecting to server'' ''danger'' s))
      in case r of
           Network_failure \<Rightarrow> failed st0
         | Response ok None \<Rightarrow> failed st0
         | Response ok (Some v) \<Rightarrow>
             (case app_renderHome (st0\<lparr>issues := v\<rparr>) of
                Returns s \<Rightarrow> s
              | Throws s \<Rightarrow> failed s))"

definition fetchLeaderboard :: "user fetched \<Rightarrow> state \<Rightarrow> state" where
  "fetchLeaderboard r st =
     (let st0 = request ''GET'' ''/api/leaderboard'' st
      in case r of
           Network_failure \<Rightarrow> console_error ''Error fetching leaderboard:'' st0
         | Response ok None \<Rightarrow> console_error ''Error fetching leaderboard:'' st0
         | Response ok (Some v) \<Rightarrow>
             (case renderLeaderboard (st0\<lparr>users := v\<rparr>) of
                Returns s \<Rightarrow> s
              | Throws s \<Rightarrow> console_error ''Error fetching leaderboard:'' s))"

section \<open>Push event listener\<close>

text \<open>\<^verbatim>\<open>socket.on('new_issue', ...)\<close>: \<^verbatim>\<open>STATE.issues.unshift(issue)\<close>, then both renders.\<close>

definition on_new_issue :: "issue \<Rightarrow> state \<Rightarrow> state" where
  "on_new_issue i st =
     handler_end
       (case issues st of
          NonArr v \<Rightarrow> Throws st
        | Arr xs \<Rightarrow>
            and_then (renderHome (st\<lparr>issues := Arr (i # xs)\<rparr>)) (\<lambda>s.
            and_then (renderMainMap s) (\<lambda>s.
            Returns (showToast ''New issue reported!'' ''info'' s))))"

text \<open>
  \<^verbatim>\<open>issue.status = data.status\<close> on the object \<^verbatim>\<open>find\<close> returned: the first issue of
  the array with that id.
\<close>

fun set_status :: "string \<Rightarrow> string \<Rightarrow> issue list \<Rightarrow> issue list" where
  "set_status k s [] = []"
| "set_status k s (i # rest) =
     (if ident i = k then i\<lparr>status := s\<rparr> # rest else i # set_status k s rest)"

text \<open>
  \<^verbatim>\<open>socket.on('status_updated', ...)\<close> with \<^verbatim>\<open>data = {issue_id, status, points_awarded}\<close>.
\<close>

definition on_status_updated :: "string \<Rightarrow> string \<Rightarrow> int \<Rightarrow> state \<Rightarrow> state" where
  "on_status_updated issue_id new_status points_awarded st =
     handler_end
       (case issues st of
          NonArr v \<Rightarrow> Throws st
        | Arr xs \<Rightarrow>
            and_then
              (case find (\<lambda>i. ident i = issue_id) xs of
                 None \<Rightarrow> Returns st
               | Some found \<Rightarrow>
                   and_then (renderHome (st\<lparr>issues := Arr (set_status issue_id new_status xs)\<rparr>)) (\<lambda>s.
                   if isAdmin s then renderAdminTable s else Returns s))
              (\<lambda>s. Returns
                 (if points_awarded > 0
                  then showToast_number points_awarded '' points awarded!'' ''success'' s
                  else s)))"

text \<open>\<^verbatim>\<open>socket.on('issue_deleted', ...)\<close> with \<^verbatim>\<open>data = {issue_id}\<close>.\<close>

definition on_issue_deleted :: "string \<Rightarrow> state \<Rightarrow> state" where
  "on_issue_deleted issue_id st =
     handler_end
       (case issues st of
          NonArr v \<Rightarrow> Throws st
        | Arr xs \<Rightarrow>
            and_then (renderHome (st\<lparr>issues := Arr (filter (\<lambda>i. ident i \<noteq> issue_id) xs)\<rparr>)) (\<lambda>s.
            renderMainMap s))"

text \<open>
  \<^verbatim>\<open>socket.on('points_updated', ...)\<close> with \<^verbatim>\<open>data = {user_id, points, added}\<close>; \<open>r\<close> is
  what the leaderboard request it starts comes back with.
\<close>

definition on_points_updated :: "string \<Rightarrow> int \<Rightarrow> int \<Rightarrow> user fetched \<Rightarrow> state \<Rightarrow> state" where
  "on_points_updated user_id new_points added r st =
     (let st1 =
            (case currentUser st of
               None \<Rightarrow> st
             | Some u \<Rightarrow>
                 (if uid u = user_id then
                    (let u' = u\<lparr>points := new_points\<rparr>;
                         s = updateUserUI (st\<lparr>currentUser := Some u', storage := Some u'\<rparr>)
                     in if added \<noteq> 0 then s\<lparr>effects := effects s @ [Points_animation added]\<rparr> else s)
                  else st))
      in fetchLeaderboard r st1)"

section \<open>Report form\<close>

text \<open>
  The submit handler of \<^verbatim>\<open>report-form\<close>. \<open>defaults\<close> is what \<^verbatim>\<open>reset()\<close> puts back
  into the fields (the markup is not part of the sources). The body of the request is
  not kept in the trace.
\<close>

definition report_submit :: "report_form \<Rightarrow> unit fetched \<Rightarrow> state \<Rightarrow> state" where
  "report_submit defaults r st =
     (if form_lat (form st) = [] \<or> form_lng (form st) = [] then
        showToast ''Please click on the map to select a location'' ''warning'' st
      else
        (let st0 = request ''POST'' ''/api/issues'' st
         in case r of
              Network_failure \<Rightarrow> console_error ''error'' (showToast ''Server error'' ''danger'' st0)
            | Response ok body \<Rightarrow>
                (if ok then
                   (let s1 = showToast ''Issue reported successfully!'' ''success'' st0;
                        s2 = s1\<lparr>form := defaults, currentImageBase64 := None, pickerMarker := None\<rparr>;
                        s3 = (if currentUser s2 = None
                              then showToast ''Login to earn points for your reports!'' ''info'' s2
                              else s2)
                    in s3\<lparr>effects := effects s3 @ [Hash_later ''#home'' 1000]\<rparr>)
                 else showToast ''Failed to submit report'' ''danger'' st0)))"

text \<open>The submit handler of \<^verbatim>\<open>app.js\<close>: the fields are sent as they are.\<close>

definition app_report_submit :: "report_form \<Rightarrow> unit fetched \<Rightarrow> state \<Rightarrow> state" where
  "app_report_submit defaults r st =
     (let st0 = request ''POST'' ''/api/issues'' st
      in case r of
           Network_failure \<Rightarrow> console_error ''error'' (showToast ''Server error'' ''danger'' st0)
         | Response ok body \<Rightarrow>
             (if ok then
                (let s1 = showToast ''Issue reported successfully!'' ''success'' st0;
                     s2 = s1\<lparr>form := defaults, currentImageBase64 := None, pickerMarker := None\<rparr>
                 in s2\<lparr>effects := effects s2 @ [Hash_later ''#home'' 1000]\<rparr>)
              else showToast ''Failed to submit report'' ''danger'' st0))"

text \<open>The page as the script finds it: \<^verbatim>\<open>STATE\<close> as declared, no map, an empty form.\<close>

definition initial_state :: state where
  "initial_state =
     \<lparr>issues = Arr [], users = Arr [], currentUser = None, isAdmin = False,
      active_filter = ''all'', mainMap = None, issueMarkers = [], next_marker = 0,
      pickerMarker = None, storage = None,
      form = \<lparr>form_type = [], form_location = [], form_lat = [], form_lng = [], form_desc = []\<rparr>,
      currentImageBase64 = None,
      home = \<lparr>total_issues = Count 0, progress_issues = 0, solved_issues = 0, issue_feed = Empty_message\<rparr>,
      admin_table = [], leaderboard = [], user_ui = None, effects = []\<rparr>"

text \<open>The map rendered \<open>n\<close> times in a row.\<close>

fun rerenders :: "nat \<Rightarrow> state \<Rightarrow> state" where
  "rerenders 0 st = st"
| "rerenders (Suc n) st = rerenders n (state_of (renderMainMap st))"

text \<open>\<^verbatim>\<open>initMainMap\<close>: the map is created, then \<^verbatim>\<open>renderMainMap\<close> runs.\<close>

definition initMainMap :: "state \<Rightarrow> completion" where
  "initMainMap st = renderMainMap (st\<lparr>mainMap := Some []\<rparr>)"

section \<open>Location autocomplete\<close>

text \<open>
  A JavaScript string as the sequence of its UTF-16 code units; \<^verbatim>\<open>length\<close> counts
  them. \<open>units\<close> writes an ASCII literal as such a string.
\<close>

type_synonym js_string = "nat list"

definition units :: "string \<Rightarrow> js_string" where
  "units s = map of_char s"

text \<open>
  \<^verbatim>\<open>String.prototype.trim\<close> removes white space and line terminators from both ends:
  tab, line feed, vertical tab, form feed, carriage return, space, no-break space,
  U+1680, U+2000 to U+200A, U+2028, U+2029, U+202F, U+205F, U+3000 and U+FEFF.
\<close>

definition is_space :: "nat \<Rightarrow> bool" where
  "is_space c =
     (c \<in> set [0x09, 0x0A, 0x0B, 0x0C, 0x0D, 0x20, 0xA0, 0x1680, 0x2028, 0x2029, 0x202F,
               0x205F, 0x3000, 0xFEFF]
      \<or> (0x2000 \<le> c \<and> c \<le> 0x200A))"

definition trim :: "js_string \<Rightarrow> js_string" where
  "trim s = rev (dropWhile is_space (rev (dropWhile is_space s)))"

text \<open>
  A pending timer of \<^verbatim>\<open>setTimeout(() => searchLocation(query), 400)\<close>: its handle, the
  time in milliseconds at which it fires, and the query its closure holds.
\<close>

record timer =
  timer_id :: nat
  due :: nat
  query :: js_string

text \<open>
  The state the autocomplete works on: the clock, the variable \<^verbatim>\<open>searchTimeout\<close>, the
  timers of the window that are still pending (oldest first), the next timer handle
  (handles are positive), the \<^verbatim>\<open>hidden\<close> class of the suggestions panel and of the
  loading indicator, and the queries sent to the search service so far. Whether the
  panel and the indicator start hidden is a matter of the markup; no statement below
  depends on it.
\<close>

record ac_state =
  now :: nat
  searchTimeout :: "nat option"
  timers :: "timer list"
  next_timer :: nat
  suggestions_hidden :: bool
  loading_hidden :: bool
  searches :: "js_string list"

definition ac_initial :: ac_state where
  "ac_initial =
     \<lparr>now = 0, searchTimeout = None, timers = [], next_timer = 1,
      suggestions_hidden = True, loading_hidden = True, searches = []\<rparr>"

definition clearTimeout :: "nat \<Rightarrow> ac_state \<Rightarrow> ac_state" where
  "clearTimeout t st = st\<lparr>timers := filter (\<lambda>x. timer_id x \<noteq> t) (timers st)\<rparr>"

text \<open>\<^verbatim>\<open>searchTimeout = setTimeout(() => searchLocation(q), delay)\<close>.\<close>

definition setTimeout_search :: "js_string \<Rightarrow> nat \<Rightarrow> ac_state \<Rightarrow> ac_state" where
  "setTimeout_search q delay st =
     st\<lparr>timers := timers st @ [\<lparr>timer_id = next_timer st, due = now st + delay, query = q\<rparr>],
        searchTimeout := Some (next_timer st),
        next_timer := Suc (next_timer st)\<rparr>"

text \<open>The \<^verbatim>\<open>input\<close> listener of the search box; \<open>v\<close> is \<^verbatim>\<open>e.target.value\<close>.\<close>

definition on_input :: "js_string \<Rightarrow> ac_state \<Rightarrow> ac_state" where
  "on_input v st =
     (let q = trim v;
          st1 = (case searchTimeout st of
                   None \<Rightarrow> st
                 | Some t \<Rightarrow> if t \<noteq> 0 then clearTimeout t st else st)
      in if length q < 3 then st1\<lparr>suggestions_hidden := True\<rparr>
         else setTimeout_search q 400 st1)"

text \<open>
  \<^verbatim>\<open>searchLocation\<close> up to its request: the loading indicator is shown and the query is
  sent. \<open>search_done\<close> is the rest of it, run when the request has settled: every branch
  hides the indicator and shows the panel.
\<close>

definition searchLocation :: "js_string \<Rightarrow> ac_state \<Rightarrow> ac_state" where
  "searchLocation q st = st\<lparr>loading_hidden := False, searches := searches st @ [q]\<rparr>"

definition search_done :: "ac_state \<Rightarrow> ac_state" where
  "search_done st = st\<lparr>loading_hidden := True, suggestions_hidden := False\<rparr>"

text \<open>
  Time passes: \<open>d\<close> milliseconds later every pending timer that is due has fired, the
  oldest first, and is no longer pending.
\<close>

definition elapse :: "nat \<Rightarrow> ac_state \<Rightarrow> ac_state" where
  "elapse d st =
     (let t = now st + d
      in foldl (\<lambda>s x. searchLocation (query x) s)
           (st\<lparr>now := t, timers := filter (\<lambda>x. \<not> due x \<le> t) (timers st)\<rparr>)
           (filter (\<lambda>x. due x \<le> t) (timers st)))"

datatype ac_event = Input js_string | Elapse nat | Search_done

fun ac_step :: "ac_state \<Rightarrow> ac_event \<Rightarrow> ac_state" where
  "ac_step st (Input v) = on_input v st"
| "ac_step st (Elapse d) = elapse d st"
| "ac_step st Search_done = search_done st"

definition ac_run :: "ac_event list \<Rightarrow> ac_state \<Rightarrow> ac_state" where
  "ac_run evs st = foldl ac_step st evs"




section \<open>Sample data and predicates used in the statements\<close>

definition issue_a1 :: issue where
  "issue_a1 = \<lparr>ident = ''a1'', issue_type = ''pothole'', location = ''MG Road'',
      lat = Some 12.9, lng = Some 77.6, status = ''solved''\<rparr>"

definition issue_equator :: issue where
  "issue_equator = \<lparr>ident = ''e0'', issue_type = ''garbage'', location = ''Equator Road'',
      lat = Some 0, lng = Some 77.6, status = ''pending''\<rparr>"

definition issue_unplaced :: issue where
  "issue_unplaced = \<lparr>ident = ''n1'', issue_type = ''streetlight'', location = ''Park Lane'',
      lat = None, lng = None, status = ''pending''\<rparr>"

definition user_u1 :: user where
  "user_u1 = \<lparr>uid = ''u1'', username = ''asha'', points = 30\<rparr>"

text \<open>What a marker shows, without the identity of the layer object.\<close>

definition marker_content :: "marker \<Rightarrow> real \<times> real \<times> string \<times> (string \<times> string \<times> string)" where
  "marker_content m = (marker_lat m, marker_lng m, color m, popup m)"

text \<open>The content of the marker \<open>place_marker\<close> adds for an issue, if it adds one.\<close>

definition drawn :: "issue \<Rightarrow> (real \<times> real \<times> string \<times> (string \<times> string \<times> string)) option" where
  "drawn i =
     (case (lat i, lng i) of
        (Some a, Some b) \<Rightarrow>
          (if a \<noteq> 0 \<and> b \<noteq> 0
           then Some (a, b, marker_color (status i), (issue_type i, location i, status i))
           else None)
      | _ \<Rightarrow> None)"

text \<open>
  The invariant of the autocomplete: timer handles are positive, every query sent has at
  least three characters, and at most one timer is pending, which is then the one
  \<^verbatim>\<open>searchTimeout\<close> names and holds a query of at least three characters.
\<close>

definition ac_inv :: "ac_state \<Rightarrow> bool" where
  "ac_inv st =
     (0 < next_timer st \<and> list_all (\<lambda>q. 3 \<le> length q) (searches st) \<and>
      (case timers st of
         [] \<Rightarrow> True
       | [x] \<Rightarrow> searchTimeout st = Some (timer_id x) \<and> 0 < timer_id x \<and> 3 \<le> length (query x)
       | _ \<Rightarrow> False))"


section \<open>Properties of the push event listener\<close>

lemma issues_place_marker [simp]: "issues (place_marker i st) = issues st"
  by (simp add: place_marker_def Let_def split: option.splits)

lemma issues_place_markers [simp]: "issues (place_markers xs st) = issues st"
  by (induction xs arbitrary: st) simp_all

lemma renderHome_returns:
  "issues st = Arr xs \<Longrightarrow> \<exists>h. renderHome st = Returns (st\<lparr>home := h\<rparr>)"
  by (auto simp: renderHome_def Let_def)

lemma renderMainMap_issues: "issues (state_of (renderMainMap st)) = issues st"
  by (simp add: renderMainMap_def Let_def split: option.splits parsed.splits)

lemma renderMainMap_returns:
  "issues st = Arr xs \<Longrightarrow> \<exists>s. renderMainMap st = Returns s"
  by (simp add: renderMainMap_def Let_def split: option.splits parsed.splits)

lemma on_new_issue_issues:
  assumes "issues st = Arr xs"
  shows "issues (on_new_issue i st) = Arr (i # xs)"
proof -
  obtain h where h: "renderHome (st\<lparr>issues := Arr (i # xs)\<rparr>)
                      = Returns (st\<lparr>issues := Arr (i # xs), home := h\<rparr>)"
    using renderHome_returns [of "st\<lparr>issues := Arr (i # xs)\<rparr>" "i # xs"] by auto
  let ?s = "st\<lparr>issues := Arr (i # xs), home := h\<rparr>"
  obtain s' where s': "renderMainMap ?s = Returns s'"
    using renderMainMap_returns [of ?s "i # xs"] by auto
  have "issues s' = Arr (i # xs)"
    using renderMainMap_issues [of ?s] s' by simp
  then show ?thesis
    using assms h s' by (simp add: on_new_issue_def showToast_def)
qed

text \<open>
  C1, as the code has it: the \<^verbatim>\<open>new_issue\<close> reaction prepends the issue it receives
  to the collection whatever ids the collection holds, so the collection grows by one
  entry each time and two events carrying the same issue leave two entries.
\<close>

theorem new_issue_always_prepends:
  assumes "issues st = Arr xs"
  shows "issues (on_new_issue i st) = Arr (i # xs)
       \<and> issues (on_new_issue i (on_new_issue i st)) = Arr (i # i # xs)"
  using on_new_issue_issues [OF assms, of i]
        on_new_issue_issues [of "on_new_issue i st" "i # xs" i]
  by simp

theorem new_issue_always_prepends_witness:
  "issues (initial_state\<lparr>issues := Arr [issue_unplaced]\<rparr>) = Arr [issue_unplaced]
   \<and> issues (on_new_issue issue_a1 (initial_state\<lparr>issues := Arr [issue_unplaced]\<rparr>))
       = Arr [issue_a1, issue_unplaced]"
  using new_issue_always_prepends
          [of "initial_state\<lparr>issues := Arr [issue_unplaced]\<rparr>" "[issue_unplaced]" issue_a1]
  by simp

text \<open>
  C1 as stated fails: the collection already holds an issue with id \<open>a1\<close>, the event
  carries that issue again, and the collection is not what it was.
\<close>

theorem new_issue_duplicate_id_counterexample:
  "ident issue_a1 \<in> ident ` set [issue_a1]
   \<and> issues (initial_state\<lparr>issues := Arr [issue_a1]\<rparr>) = Arr [issue_a1]
   \<and> issues (on_new_issue issue_a1 (initial_state\<lparr>issues := Arr [issue_a1]\<rparr>))
       = Arr [issue_a1, issue_a1]"
  by (simp add: on_new_issue_issues)

lemma find_unknown: "k \<notin> ident ` set xs \<Longrightarrow> find (\<lambda>i. ident i = k) xs = None"
  by (induction xs) auto

text \<open>
  C3, as the code has it: a \<^verbatim>\<open>status_updated\<close> event whose id matches no issue of the
  collection leaves the collection, the feed and the admin table as they were; it
  shows no toast when \<^verbatim>\<open>points_awarded\<close> is not positive, and the points toast when
  it is.
\<close>

theorem status_updated_unknown_id:
  assumes "issues st = Arr xs" and "k \<notin> ident ` set xs"
  shows "issues (on_status_updated k s p st) = Arr xs
       \<and> home (on_status_updated k s p st) = home st
       \<and> admin_table (on_status_updated k s p st) = admin_table st
       \<and> effects (on_status_updated k s p st) =
           effects st @
             (if p > 0 then [Toast_number p '' points awarded!'' ''success''] else [])"
  using assms(1) find_unknown [OF assms(2)]
  by (simp add: on_status_updated_def showToast_number_def)

theorem status_updated_unknown_id_witness:
  "''zz'' \<notin> ident ` set [issue_a1]
   \<and> issues (on_status_updated ''zz'' ''solved'' 0 (initial_state\<lparr>issues := Arr [issue_a1]\<rparr>))
       = Arr [issue_a1]
   \<and> effects (on_status_updated ''zz'' ''solved'' 0 (initial_state\<lparr>issues := Arr [issue_a1]\<rparr>)) = []"
  using status_updated_unknown_id
          [of "initial_state\<lparr>issues := Arr [issue_a1]\<rparr>" "[issue_a1]" "''zz''" "''solved''" 0]
  by (simp add: issue_a1_def initial_state_def)

text \<open>
  C3 as stated fails: the id \<open>zz\<close> is unknown, the event carries 10 points, and the
  toast for 10 awarded points is shown.
\<close>

theorem unknown_id_points_toast_counterexample:
  "''zz'' \<notin> ident ` set [issue_a1]
   \<and> effects (initial_state\<lparr>issues := Arr [issue_a1]\<rparr>) = []
   \<and> effects (on_status_updated ''zz'' ''solved'' 10 (initial_state\<lparr>issues := Arr [issue_a1]\<rparr>))
       = [Toast_number 10 '' points awarded!'' ''success'']"
  by (simp add: on_status_updated_def showToast_number_def issue_a1_def initial_state_def)

lemma fetchLeaderboard_frame:
  "currentUser (fetchLeaderboard r st) = currentUser st"
  "storage (fetchLeaderboard r st) = storage st"
  "user_ui (fetchLeaderboard r st) = user_ui st"
  "take (Suc (length (effects st))) (effects (fetchLeaderboard r st))
     = effects st @ [Request ''GET'' ''/api/leaderboard'']"
  by (simp_all add: fetchLeaderboard_def Let_def request_def console_error_def renderLeaderboard_def
        split: fetched.splits option.splits parsed.splits)

text \<open>
  C4: with a user logged in, a \<^verbatim>\<open>points_updated\<close> event for another user id leaves
  the session user (and so the point balance), the stored session and the identity
  region as they were, and the next effect of the reaction is the request for the
  leaderboard, whatever that request comes back with.
\<close>

theorem points_updated_other_user:
  assumes "currentUser st = Some u" and "uid u \<noteq> user_id"
  shows "currentUser (on_points_updated user_id p a r st) = Some u
       \<and> storage (on_points_updated user_id p a r st) = storage st
       \<and> user_ui (on_points_updated user_id p a r st) = user_ui st
       \<and> take (Suc (length (effects st))) (effects (on_points_updated user_id p a r st))
           = effects st @ [Request ''GET'' ''/api/leaderboard'']"
  using assms by (simp add: on_points_updated_def fetchLeaderboard_frame)

theorem points_updated_other_user_witness:
  "uid user_u1 \<noteq> ''u2''
   \<and> currentUser (on_points_updated ''u2'' 50 20 Network_failure
        (initial_state\<lparr>currentUser := Some user_u1, storage := Some user_u1\<rparr>)) = Some user_u1
   \<and> storage (on_points_updated ''u2'' 50 20 Network_failure
        (initial_state\<lparr>currentUser := Some user_u1, storage := Some user_u1\<rparr>)) = Some user_u1"
  using points_updated_other_user
          [of "initial_state\<lparr>currentUser := Some user_u1, storage := Some user_u1\<rparr>"
              user_u1 "''u2''" 50 20 Network_failure]
  by (simp add: user_u1_def)

section \<open>Properties of the data fetching\<close>

text \<open>
  A fetch that does not complete, or whose body is not JSON, leaves the collection
  alone in both variants of \<^verbatim>\<open>fetchIssues\<close>.
\<close>

lemma fetchIssues_no_body_keeps_issues:
  "issues (fetchIssues Network_failure st) = issues st"
  "issues (fetchIssues (Response ok None) st) = issues st"
  "issues (app_fetchIssues Network_failure st) = issues st"
  "issues (app_fetchIssues (Response ok None) st) = issues st"
  by (simp_all add: fetchIssues_def app_fetchIssues_def request_def console_error_def
        showToast_def Let_def)

text \<open>
  C2 at a response that is not 2xx: the collection holds one issue, the server answers
  with \<^verbatim>\<open>res.ok\<close> false and a JSON body. When the body is an error object, it replaces
  the collection in both variants of \<^verbatim>\<open>fetchIssues\<close>; when it is the empty array, the
  collection is emptied.
\<close>

theorem fetchIssues_error_response_overwrites:
  "issues (initial_state\<lparr>issues := Arr [issue_a1]\<rparr>) = Arr [issue_a1]
   \<and> issues (fetchIssues (Response False (Some (NonArr ''{error: database unavailable}'')))
        (initial_state\<lparr>issues := Arr [issue_a1]\<rparr>)) = NonArr ''{error: database unavailable}''
   \<and> issues (app_fetchIssues (Response False (Some (NonArr ''{error: database unavailable}'')))
        (initial_state\<lparr>issues := Arr [issue_a1]\<rparr>)) = NonArr ''{error: database unavailable}''
   \<and> issues (fetchIssues (Response False (Some (Arr [])))
        (initial_state\<lparr>issues := Arr [issue_a1]\<rparr>)) = Arr []"
  by (simp add: fetchIssues_def app_fetchIssues_def request_def console_error_def showToast_def
        renderHome_def app_renderHome_def Let_def)

section \<open>Properties of the report form\<close>

text \<open>
  The handler of the page with the push channel rejects a submission whose latitude
  or longitude field is empty: one warning toast, nothing else changes, no request.
\<close>

lemma report_submit_rejects_without_coordinates:
  "form_lat (form st) = [] \<or> form_lng (form st) = [] \<Longrightarrow>
     report_submit d r st =
       st\<lparr>effects := effects st @ [Toast ''Please click on the map to select a location'' ''warning'']\<rparr>"
  by (auto simp: report_submit_def showToast_def)

text \<open>
  C6 at the handler of \<^verbatim>\<open>app.js\<close>: nothing was picked, both coordinate fields are
  empty, the form is submitted and the server accepts. The request is sent and the
  success toast is shown; no warning appears.
\<close>

theorem app_report_submit_without_coordinates:
  "form_lat (form initial_state) = [] \<and> form_lng (form initial_state) = []
   \<and> effects (app_report_submit (form initial_state) (Response True None) initial_state)
       = [Request ''POST'' ''/api/issues'', Toast ''Issue reported successfully!'' ''success'',
          Hash_later ''#home'' 1000]"
  by (simp add: app_report_submit_def request_def showToast_def Let_def initial_state_def)

section \<open>Properties of the feed\<close>

text \<open>
  C8: for every collection and every filter a click selects, the total counter is the
  number of issues of the whole collection, and the in-progress and solved counters
  are the numbers of its positions that hold an issue of that status. The page of
  \<^verbatim>\<open>app.js\<close> has the total and the solved counter, and the same holds for them.
\<close>

theorem feed_counters_ignore_filter:
  "total_issues (home (on_filter_click f (st\<lparr>issues := Arr xs\<rparr>))) = Count (length xs)
   \<and> progress_issues (home (on_filter_click f (st\<lparr>issues := Arr xs\<rparr>)))
       = card {n. n < length xs \<and> status (xs ! n) = ''in-progress''}
   \<and> solved_issues (home (on_filter_click f (st\<lparr>issues := Arr xs\<rparr>)))
       = card {n. n < length xs \<and> status (xs ! n) = ''solved''}
   \<and> total_issues (home (app_on_filter_click f (st\<lparr>issues := Arr xs\<rparr>))) = Count (length xs)
   \<and> solved_issues (home (app_on_filter_click f (st\<lparr>issues := Arr xs\<rparr>)))
       = card {n. n < length xs \<and> status (xs ! n) = ''solved''}"
  by (simp add: on_filter_click_def app_on_filter_click_def renderHome_def app_renderHome_def
        Let_def length_filter_conv_card)

theorem feed_counters_ignore_filter_witness:
  "total_issues (home (on_filter_click ''pending'' (initial_state\<lparr>issues := Arr [issue_a1]\<rparr>))) = Count 1
   \<and> solved_issues (home (on_filter_click ''pending'' (initial_state\<lparr>issues := Arr [issue_a1]\<rparr>))) = 1
   \<and> issue_feed (home (on_filter_click ''pending'' (initial_state\<lparr>issues := Arr [issue_a1]\<rparr>)))
       = Empty_message"
  using feed_counters_ignore_filter
          [where f = "''pending''" and st = initial_state and xs = "[issue_a1]"]
  by (simp add: on_filter_click_def renderHome_def Let_def issue_a1_def initial_state_def)

text \<open>
  On a value that is no array and not \<^verbatim>\<open>null\<close>, the total counter is assigned before
  the exception; the other counters and the feed stay.
\<close>

lemma renderHome_non_array:
  "v \<noteq> ''null'' \<Longrightarrow>
     renderHome (st\<lparr>issues := NonArr v\<rparr>)
       = Throws (st\<lparr>issues := NonArr v, home := (home st)\<lparr>total_issues := Length_of v\<rparr>\<rparr>)"
  "renderHome (st\<lparr>issues := NonArr ''null''\<rparr>) = Throws (st\<lparr>issues := NonArr ''null''\<rparr>)"
  by (simp_all add: renderHome_def)

text \<open>The cards of the feed are the issues the filter selects, in their order.\<close>

lemma feed_shows_filtered:
  "issue_feed (home (state_of (renderHome (st\<lparr>issues := Arr xs\<rparr>)))) =
     (let shown = (if active_filter st = ''all'' then xs
                   else filter (\<lambda>i. status i = active_filter st) xs)
      in if shown = [] then Empty_message else Cards (map card_of shown))"
  by (simp add: renderHome_def Let_def)

section \<open>Properties of the main map\<close>

lemma foldl_removeLayer:
  "foldl (\<lambda>l m. removeLayer m l) ls ms = filter (\<lambda>l. marker_id l \<notin> marker_id ` set ms) ls"
proof (induction ms arbitrary: ls)
  case Nil
  then show ?case by simp
next
  case (Cons m ms)
  have "filter (\<lambda>l. marker_id l \<notin> marker_id ` set ms) (removeLayer m ls)
        = filter (\<lambda>l. marker_id l \<notin> marker_id ` set (m # ms)) ls"
    by (induction ls) (auto simp: removeLayer_def)
  then show ?case by (simp add: Cons.IH)
qed

lemma clear_own_markers: "foldl (\<lambda>l m. removeLayer m l) ms ms = []"
  by (simp add: foldl_removeLayer filter_empty_conv)

lemma place_marker_tracks:
  "mainMap st = Some (issueMarkers st) \<Longrightarrow>
     mainMap (place_marker i st) = Some (issueMarkers (place_marker i st))"
  by (simp add: place_marker_def Let_def split: option.splits)

lemma place_markers_tracks:
  "mainMap st = Some (issueMarkers st) \<Longrightarrow>
     mainMap (place_markers xs st) = Some (issueMarkers (place_markers xs st))"
  by (induction xs arbitrary: st) (simp_all add: place_marker_tracks)

lemma place_marker_content:
  "map marker_content (issueMarkers (place_marker i st)) =
     map marker_content (issueMarkers st) @ (case drawn i of None \<Rightarrow> [] | Some c \<Rightarrow> [c])"
  by (simp add: place_marker_def drawn_def marker_content_def Let_def split: option.splits)

lemma place_markers_content:
  "map marker_content (issueMarkers (place_markers xs st)) =
     map marker_content (issueMarkers st) @ List.map_filter drawn xs"
  by (induction xs arbitrary: st)
     (simp_all add: place_marker_content split: option.splits)

lemma renderMainMap_on_array:
  assumes "mainMap st = Some ls" and "issues st = Arr xs"
  shows "mainMap (state_of (renderMainMap st)) =
           mainMap (place_markers xs
             (st\<lparr>mainMap := Some (foldl (\<lambda>l m. removeLayer m l) ls (issueMarkers st)),
                 issueMarkers := []\<rparr>))"
    and "issueMarkers (state_of (renderMainMap st)) =
           issueMarkers (place_markers xs
             (st\<lparr>mainMap := Some (foldl (\<lambda>l m. removeLayer m l) ls (issueMarkers st)),
                 issueMarkers := []\<rparr>))"
  using assms by (simp_all add: renderMainMap_def Let_def)

text \<open>
  No marker outlives a render: when the markers on the map are the tracked ones, then
  after \<^verbatim>\<open>renderMainMap\<close> they are again, and they are the markers of this render
  alone, one for each issue whose coordinates are both truthy, in the order of the
  collection.
\<close>

lemma renderMainMap_no_leak:
  assumes "mainMap st = Some (issueMarkers st)" and "issues st = Arr xs"
  shows "mainMap (state_of (renderMainMap st)) = Some (issueMarkers (state_of (renderMainMap st)))"
    and "map marker_content (issueMarkers (state_of (renderMainMap st))) = List.map_filter drawn xs"
proof -
  let ?s1 = "st\<lparr>mainMap := Some [], issueMarkers := []\<rparr>"
  have t: "mainMap (place_markers xs ?s1) = Some (issueMarkers (place_markers xs ?s1))"
    by (rule place_markers_tracks) simp
  show "mainMap (state_of (renderMainMap st)) = Some (issueMarkers (state_of (renderMainMap st)))"
    using t by (simp add: renderMainMap_on_array [OF assms] clear_own_markers)
  show "map marker_content (issueMarkers (state_of (renderMainMap st))) = List.map_filter drawn xs"
    using place_markers_content [of xs ?s1]
    by (simp add: renderMainMap_on_array [OF assms] clear_own_markers)
qed

text \<open>The same after any number of renders, the first included.\<close>

lemma rerenders_no_leak:
  assumes "mainMap st = Some (issueMarkers st)" and "issues st = Arr xs"
  shows "mainMap (rerenders (Suc n) st) = Some (issueMarkers (rerenders (Suc n) st))
       \<and> map marker_content (issueMarkers (rerenders (Suc n) st)) = List.map_filter drawn xs"
  using assms
proof (induction n arbitrary: st)
  case 0
  then show ?case using renderMainMap_no_leak [of st xs] by simp
next
  case (Suc n)
  let ?s = "state_of (renderMainMap st)"
  have "mainMap ?s = Some (issueMarkers ?s)"
    by (rule renderMainMap_no_leak(1) [OF Suc.prems])
  moreover have "issues ?s = Arr xs"
    using Suc.prems(2) by (simp add: renderMainMap_issues)
  ultimately show ?case using Suc.IH [of ?s] by simp
qed

text \<open>
  Which issues get a marker: one that misses a coordinate gets none, one whose
  coordinates are both present and not zero gets one, and one with a coordinate that
  is zero gets none.
\<close>

lemma drawn_cases:
  "lat i = None \<or> lng i = None \<Longrightarrow> drawn i = None"
  "lat i = Some a \<Longrightarrow> lng i = Some b \<Longrightarrow> a \<noteq> 0 \<Longrightarrow> b \<noteq> 0 \<Longrightarrow>
     drawn i = Some (a, b, marker_color (status i), (issue_type i, location i, status i))"
  "lat i = Some 0 \<or> lng i = Some 0 \<Longrightarrow> drawn i = None"
  by (auto simp: drawn_def split: option.splits)

text \<open>
  C5 at an issue on the equator: both coordinate fields are present (the latitude is
  the number 0) and the main map exists. \<^verbatim>\<open>renderMainMap\<close> returns the state as it
  was, so no marker is on the map, while the feed shows the issue (without the map
  link).
\<close>

theorem equator_issue_not_on_map:
  "lat issue_equator = Some 0 \<and> lng issue_equator = Some 77.6
   \<and> mainMap (initial_state\<lparr>issues := Arr [issue_equator], mainMap := Some []\<rparr>) = Some []
   \<and> renderMainMap (initial_state\<lparr>issues := Arr [issue_equator], mainMap := Some []\<rparr>)
       = Returns (initial_state\<lparr>issues := Arr [issue_equator], mainMap := Some []\<rparr>)
   \<and> issue_feed (home (state_of (renderHome
        (initial_state\<lparr>issues := Arr [issue_equator], mainMap := Some []\<rparr>))))
       = Cards [Card issue_equator False]"
  by (simp add: renderMainMap_def renderHome_def Let_def place_marker_def card_of_def truthy_def
        issue_equator_def initial_state_def)

lemma first_render:
  "state_of (renderMainMap (initial_state\<lparr>issues := Arr [issue_equator, issue_a1], mainMap := Some []\<rparr>))
   = initial_state\<lparr>issues := Arr [issue_equator, issue_a1],
        mainMap := Some [\<lparr>marker_id = 0, marker_lat = 12.9, marker_lng = 77.6, color = ''green'',
                popup = (''pothole'', ''MG Road'', ''solved'')\<rparr>],
        issueMarkers := [\<lparr>marker_id = 0, marker_lat = 12.9, marker_lng = 77.6, color = ''green'',
                popup = (''pothole'', ''MG Road'', ''solved'')\<rparr>],
        next_marker := 1, effects := [Fit_bounds [0]]\<rparr>"
  by (simp add: renderMainMap_def Let_def place_marker_def issue_equator_def issue_a1_def
        initial_state_def marker_color_def)

text \<open>
  C7 at a collection of two issues that both have their coordinates, one of them on
  the equator: after the map is rendered twice, one marker is on the map. The marker
  of the first render is gone, and the issue on the equator has none.
\<close>

theorem rerender_zero_latitude_count:
  "length (filter (\<lambda>i. lat i \<noteq> None \<and> lng i \<noteq> None) [issue_equator, issue_a1]) = 2
   \<and> mainMap (state_of (renderMainMap (state_of (renderMainMap
        (initial_state\<lparr>issues := Arr [issue_equator, issue_a1], mainMap := Some []\<rparr>)))))
       = Some [\<lparr>marker_id = 1, marker_lat = 12.9, marker_lng = 77.6, color = ''green'',
                popup = (''pothole'', ''MG Road'', ''solved'')\<rparr>]"
  unfolding first_render
  by (simp add: renderMainMap_def Let_def place_marker_def issue_equator_def issue_a1_def
        initial_state_def removeLayer_def marker_color_def del: not_None_eq)

section \<open>Properties of the location autocomplete\<close>

text \<open>White space beyond ASCII is trimmed too: a no-break space on both sides.\<close>

lemma trim_no_break_space: "trim (0xA0 # units ''MG'' @ [0xA0]) = units ''MG''"
  by (simp add: trim_def is_space_def units_def)

lemma ac_inv_initial: "ac_inv ac_initial"
  by (simp add: ac_inv_def ac_initial_def)

lemma timers_cases:
  "ac_inv st \<Longrightarrow>
     timers st = [] \<or>
     (\<exists>x. timers st = [x] \<and> searchTimeout st = Some (timer_id x) \<and> 0 < timer_id x
           \<and> 3 \<le> length (query x))"
  by (auto simp: ac_inv_def split: list.splits)

lemma on_input_short:
  assumes "ac_inv st" and "length (trim v) < 3"
  shows "on_input v st = st\<lparr>timers := [], suggestions_hidden := True\<rparr>"
  using timers_cases [OF assms(1)] assms(2)
  by (auto simp: on_input_def Let_def clearTimeout_def split: option.splits)

lemma on_input_long:
  assumes "ac_inv st" and "3 \<le> length (trim v)"
  shows "on_input v st =
           st\<lparr>timers := [\<lparr>timer_id = next_timer st, due = now st + 400, query = trim v\<rparr>],
              searchTimeout := Some (next_timer st), next_timer := Suc (next_timer st)\<rparr>"
  using timers_cases [OF assms(1)] assms(2)
  by (auto simp: on_input_def Let_def clearTimeout_def setTimeout_search_def split: option.splits)

lemma ac_inv_on_input:
  assumes "ac_inv st"
  shows "ac_inv (on_input v st)"
proof (cases "length (trim v) < 3")
  case True
  show ?thesis using assms by (simp add: on_input_short [OF assms True] ac_inv_def)
next
  case False
  then have l: "3 \<le> length (trim v)" by simp
  show ?thesis using assms l by (simp add: on_input_long [OF assms l] ac_inv_def)
qed

lemma ac_inv_elapse: "ac_inv st \<Longrightarrow> ac_inv (elapse d st)"
  using timers_cases [of st]
  by (auto simp: elapse_def Let_def searchLocation_def ac_inv_def)

lemma ac_inv_search_done: "ac_inv st \<Longrightarrow> ac_inv (search_done st)"
  by (auto simp: ac_inv_def search_done_def split: list.splits)

lemma ac_inv_step: "ac_inv st \<Longrightarrow> ac_inv (ac_step st e)"
  by (cases e) (simp_all add: ac_inv_on_input ac_inv_elapse ac_inv_search_done)

lemma ac_inv_run: "ac_inv st \<Longrightarrow> ac_inv (ac_run evs st)"
  unfolding ac_run_def by (induction evs arbitrary: st) (simp_all add: ac_inv_step)

lemma ac_inv_reachable: "ac_inv (ac_run evs ac_initial)"
  by (rule ac_inv_run [OF ac_inv_initial])










text \<open>
  C10: whatever happened in the search box before, an input whose trimmed value has
  fewer than three characters leaves no timer pending, hides the suggestions panel
  and sends nothing; and at every moment each pending timer and each search sent holds
  a query of at least three characters.
\<close>

theorem short_query_schedules_nothing:
  assumes "length (trim v) < 3"
  shows "timers (on_input v (ac_run evs ac_initial)) = []
       \<and> suggestions_hidden (on_input v (ac_run evs ac_initial))
       \<and> searches (on_input v (ac_run evs ac_initial)) = searches (ac_run evs ac_initial)
       \<and> list_all (\<lambda>x. 3 \<le> length (query x)) (timers (ac_run evs ac_initial))
       \<and> list_all (\<lambda>q. 3 \<le> length q) (searches (ac_run evs ac_initial))"
proof -
  let ?s = "ac_run evs ac_initial"
  have i: "ac_inv ?s" by (rule ac_inv_reachable)
  have "list_all (\<lambda>x. 3 \<le> length (query x)) (timers ?s)"
    using timers_cases [OF i] by auto
  moreover have "list_all (\<lambda>q. 3 \<le> length q) (searches ?s)"
    using i by (simp add: ac_inv_def)
  ultimately show ?thesis by (simp add: on_input_short [OF i assms])
qed

theorem short_query_schedules_nothing_witness:
  "length (trim (units '' MG '')) < 3
   \<and> timers (ac_run [Input (units ''MG Road'')] ac_initial)
       = [\<lparr>timer_id = 1, due = 400, query = units ''MG Road''\<rparr>]
   \<and> timers (on_input (units '' MG '') (ac_run [Input (units ''MG Road'')] ac_initial)) = []
   \<and> suggestions_hidden (on_input (units '' MG '') (ac_run [Input (units ''MG Road'')] ac_initial))"
  using short_query_schedules_nothing [of "units '' MG ''" "[Input (units ''MG Road'')]"]
  by (simp add: ac_run_def ac_initial_def on_input_def trim_def is_space_def Let_def
        setTimeout_search_def units_def)

end
